theory Spec2Isabelle
  imports Main "HOL-Library.AList"
begin

section \<open>Python values, attribute access and exceptions\<close>

text \<open>
  The decorator of \<^verbatim>\<open>rbac_rule_validation.py\<close> only ever reads attributes of the objects
  it is given, and calls one of them. A Python value is therefore \<open>None\<close>, a string, a
  bound method, or an object with a class name, a flag telling whether it is an instance
  of \<^verbatim>\<open>tempest.test.BaseTestCase\<close>, and its attributes. The attributes of \<open>None\<close>, of
  strings and of bound methods are not modelled.
\<close>

datatype pyval =
    PyNone
  | PyStr string
  | PyCallable
  | PyObj string bool "(string \<times> pyval) list"

text \<open>
  The exception classes the module names, any other subclass of \<open>Exception\<close>, and the classes
  that derive from \<open>BaseException\<close> only (\<open>KeyboardInterrupt\<close>, \<open>SystemExit\<close>), which
  \<^verbatim>\<open>except Exception\<close> does not catch. The classes are pairwise unrelated by inheritance.
  An exception carries a text: the one \<open>str\<close> gives for an exception that the guarded
  function raises, the string it is built from for an exception that this module builds.
\<close>

datatype exc_class =
    Forbidden
  | NotFound
  | RbacInvalidService
  | RbacActionFailed
  | RbacOverPermission
  | RbacResourceSetupFailed
  | RbacInvalidErrorCode
  | AttributeError
  | OtherException string
  | NonException string

datatype exc = Exc (class_of: exc_class) (str_of: string)

fun is_Exception :: "exc_class \<Rightarrow> bool" where
  "is_Exception (NonException n) = False"
| "is_Exception c = True"

fun class_name :: "exc_class \<Rightarrow> string" where
  "class_name Forbidden = ''Forbidden''"
| "class_name NotFound = ''NotFound''"
| "class_name RbacInvalidService = ''RbacInvalidService''"
| "class_name RbacActionFailed = ''RbacActionFailed''"
| "class_name RbacOverPermission = ''RbacOverPermission''"
| "class_name RbacResourceSetupFailed = ''RbacResourceSetupFailed''"
| "class_name RbacInvalidErrorCode = ''RbacInvalidErrorCode''"
| "class_name AttributeError = ''AttributeError''"
| "class_name (OtherException n) = n"
| "class_name (NonException n) = n"

fun type_name :: "pyval \<Rightarrow> string" where
  "type_name PyNone = ''NoneType''"
| "type_name (PyStr s) = ''str''"
| "type_name PyCallable = ''method''"
| "type_name (PyObj c t attrs) = c"

fun isinstance_BaseTestCase :: "pyval \<Rightarrow> bool" where
  "isinstance_BaseTestCase (PyObj c t attrs) = t"
| "isinstance_BaseTestCase v = False"

definition no_attribute :: "pyval \<Rightarrow> string \<Rightarrow> exc" where
  "no_attribute v a =
     Exc AttributeError
       ([CHR 0x27] @ type_name v @ [CHR 0x27] @ '' object has no attribute ''
          @ [CHR 0x27] @ a @ [CHR 0x27])"

fun getattr :: "pyval \<Rightarrow> string \<Rightarrow> exc + pyval" where
  "getattr (PyObj c t attrs) a =
     (case map_of attrs a of
        Some x \<Rightarrow> Inr x
      | None \<Rightarrow> Inl (no_attribute (PyObj c t attrs) a))"
| "getattr v a = Inl (no_attribute v a)"

text \<open>
  \<^verbatim>\<open>for attr in attrs: attr_value = getattr(attr_value, attr)\<close>, and the dotted reads
  \<^verbatim>\<open>caller_ref.auth_provider.credentials.project_id\<close>: the first missing attribute raises.
\<close>

fun getattr_chain :: "pyval \<Rightarrow> string list \<Rightarrow> exc + pyval" where
  "getattr_chain v [] = Inr v"
| "getattr_chain v (a # as) =
     (case getattr v a of
        Inl e \<Rightarrow> Inl e
      | Inr w \<Rightarrow> getattr_chain w as)"

text \<open>\<^verbatim>\<open>attr_string.split('.')\<close>: never empty, an empty string gives one empty segment.\<close>

fun split_dot :: "string \<Rightarrow> string list" where
  "split_dot [] = [[]]"
| "split_dot (c # cs) =
     (if c = CHR ''.'' then [] # split_dot cs
      else (case split_dot cs of
              w # ws \<Rightarrow> (c # w) # ws
            | [] \<Rightarrow> [[c]]))"

text \<open>\<^verbatim>\<open>template.format(a, b)\<close> for templates whose only fields are \<open>{0}\<close> and \<open>{1}\<close>.\<close>

fun str_format :: "string \<Rightarrow> string \<Rightarrow> string \<Rightarrow> string" where
  "str_format [] a b = []"
| "str_format (c # cs) a b =
     (if take 3 (c # cs) = ''{0}'' then a @ str_format (drop 2 cs) a b
      else if take 3 (c # cs) = ''{1}'' then b @ str_format (drop 2 cs) a b
      else c # str_format cs a b)"

section \<open>The collaborators and the effects of one invocation\<close>

text \<open>
  The arguments of \<^verbatim>\<open>action(service, rule, admin_only, expected_error_code,
  extra_target_data)\<close>. The dictionary \<open>extra_target_data\<close> is the list of its items in the
  order \<open>.items()\<close> yields them.
\<close>

record action_params =
  service :: string
  rule :: string
  admin_only :: bool
  expected_error_code :: int
  extra_target_data :: "(string \<times> string) list"

text \<open>A call returns or raises. The value the guarded function returns is never used.\<close>

datatype outcome = Returns | Raises exc

text \<open>
  What the module takes from outside:
  \<^item> \<^verbatim>\<open>CONF.rbac.rbac_test_role\<close>;
  \<^item> the answer of
    \<^verbatim>\<open>rbac_auth.RbacAuthority(project_id, user_id, service, extra).get_permission(rule, role)\<close>;
  \<^item> what calling the value found at \<^verbatim>\<open>caller_ref.rbac_utils.switch_role\<close> with the
    test case and \<open>toggle_rbac_role\<close> does: the call returns or raises (a \<open>TypeError\<close>
    when the value is not callable);
  \<^item> what calling an exception class with one string does (\<^verbatim>\<open>exc_info[0](msg)\<close>):
    \<open>None\<close> when the instance is built, the exception the constructor raises otherwise
    (a \<open>TypeError\<close> for a class such as \<open>UnicodeDecodeError\<close>).
  The authority and the logger are taken at their interface: they return.
\<close>

record env =
  rbac_test_role :: string
  get_permission ::
    "pyval \<Rightarrow> pyval \<Rightarrow> string \<Rightarrow> (string \<times> pyval) list \<Rightarrow> string \<Rightarrow> string \<Rightarrow> bool"
  switch_role :: "pyval \<Rightarrow> pyval \<Rightarrow> bool \<Rightarrow> outcome"
  constructor_error :: "exc_class \<Rightarrow> exc option"

text \<open>The calls an invocation makes on its collaborators, in order.\<close>

datatype event =
    LogError string
  | LogInfo string
  | LogWarning string
  | AuthorityInit pyval pyval string "(string \<times> pyval) list"
  | GetPermission string string
  | FuncCall "pyval list" "(string \<times> pyval) list"
  | SwitchRole pyval bool

fun is_func_call :: "event \<Rightarrow> bool" where
  "is_func_call (FuncCall a k) = True"
| "is_func_call ev = False"

fun is_switch_role :: "event \<Rightarrow> bool" where
  "is_switch_role (SwitchRole r t) = True"
| "is_switch_role ev = False"

fun is_authority_event :: "event \<Rightarrow> bool" where
  "is_authority_event (AuthorityInit p u s x) = True"
| "is_authority_event (GetPermission r ro) = True"
| "is_authority_event ev = False"

type_synonym guarded = "pyval list \<Rightarrow> (string \<times> pyval) list \<Rightarrow> outcome"

section \<open>\<^verbatim>\<open>_get_exception_type\<close>\<close>

definition irregular_template :: string where
  "irregular_template =
     ''NotFound exception was caught for policy action {0}. The service {1} throws a 404 instead of a 403, which is irregular.''"

definition unsupported_code_msg :: string where
  "unsupported_code_msg =
     ''Please pass an expected error code. Currently supported codes: [403, 404]''"

definition get_exception_type :: "int \<Rightarrow> exc + (exc_class \<times> string option)" where
  "get_exception_type code =
     (if code = 403 then Inr (Forbidden, None)
      else if code = 404 then Inr (NotFound, Some irregular_template)
      else Inl (Exc RbacInvalidErrorCode []))"

section \<open>\<^verbatim>\<open>_format_extra_target_data\<close>\<close>

text \<open>
  The loop over the items. \<open>attr_value\<close> is assigned \<open>test_obj\<close> once, before the loop, and
  is carried from one item to the next; \<open>formatted\<close> is the dictionary built so far.
\<close>

fun format_loop ::
  "pyval \<Rightarrow> (string \<times> pyval) list \<Rightarrow> (string \<times> string) list \<Rightarrow> exc + (string \<times> pyval) list"
where
  "format_loop attr_value formatted [] = Inr formatted"
| "format_loop attr_value formatted ((user_attribute, attr_string) # rest) =
     (case getattr_chain attr_value (split_dot attr_string) of
        Inl e \<Rightarrow> Inl e
      | Inr v \<Rightarrow> format_loop v (AList.update user_attribute v formatted) rest)"

definition format_extra_target_data ::
  "pyval \<Rightarrow> (string \<times> string) list \<Rightarrow> exc + (string \<times> pyval) list"
where
  "format_extra_target_data test_obj etd = format_loop test_obj [] etd"

section \<open>The wrapper returned by \<^verbatim>\<open>action(...)(func)\<close>\<close>

text \<open>Lines 66 to 76: the test case and its credentials, or \<open>RbacResourceSetupFailed\<close>.\<close>

definition caller_reference :: "pyval list \<Rightarrow> pyval" where
  "caller_reference args =
     (case args of
        [] \<Rightarrow> PyNone
      | a # rest \<Rightarrow> if isinstance_BaseTestCase a then a else PyNone)"

definition setup_failed :: "exc \<Rightarrow> exc" where
  "setup_failed e =
     Exc RbacResourceSetupFailed
       (str_of e @ '': project_id/user_id not found in cls.auth_provider.credentials'')"

definition resolve_credentials :: "pyval list \<Rightarrow> exc + (pyval \<times> pyval \<times> pyval)" where
  "resolve_credentials args =
     (let caller_ref = caller_reference args in
      case getattr_chain caller_ref [''auth_provider'', ''credentials'', ''project_id''] of
        Inl e \<Rightarrow> Inl (setup_failed e)
      | Inr project_id \<Rightarrow>
          (case getattr_chain caller_ref [''auth_provider'', ''credentials'', ''user_id''] of
             Inl e \<Rightarrow> Inl (setup_failed e)
           | Inr user_id \<Rightarrow> Inr (caller_ref, project_id, user_id)))"

text \<open>Lines 78 to 88: the verdict \<open>allowed\<close>, with the calls made to compute it.\<close>

definition admin_only_msg :: "string \<Rightarrow> string" where
  "admin_only_msg r =
     ''As admin_only is True, only admin role should be allowed to perform the API. Skipping oslo.policy check for policy action ''
       @ r @ ''.''"

definition permission_verdict ::
  "env \<Rightarrow> action_params \<Rightarrow> pyval \<Rightarrow> pyval \<Rightarrow> pyval \<Rightarrow> (exc + bool) \<times> event list"
where
  "permission_verdict E p caller_ref project_id user_id =
     (if admin_only p
      then (Inr (rbac_test_role E = ''admin''), [LogInfo (admin_only_msg (rule p))])
      else (case format_extra_target_data caller_ref (extra_target_data p) of
              Inl e \<Rightarrow> (Inl e, [])
            | Inr extra \<Rightarrow>
                (Inr (get_permission E project_id user_id (service p) extra
                        (rule p) (rbac_test_role E)),
                 [AuthorityInit project_id user_id (service p) extra,
                  GetPermission (rule p) (rbac_test_role E)])))"

text \<open>Lines 95 to 125: the handlers and the \<open>else\<close> branch of the \<open>try\<close> around the call.\<close>

definition invalid_service_msg :: "action_params \<Rightarrow> string" where
  "invalid_service_msg p = service p @ '' is not a valid service.''"

definition not_allowed_msg :: "env \<Rightarrow> action_params \<Rightarrow> string" where
  "not_allowed_msg E p =
     ''Role '' @ rbac_test_role E @ '' was not allowed to perform '' @ rule p @ ''.''"

definition unexpected_msg :: "exc \<Rightarrow> exc_class \<Rightarrow> string" where
  "unexpected_msg e expected_exception =
     str_of e @ '' An unexpected exception has occurred: Expected exception was ''
       @ class_name expected_exception @ '', which was not thrown.''"

definition was_allowed_msg :: "env \<Rightarrow> action_params \<Rightarrow> string" where
  "was_allowed_msg E p =
     ''Role '' @ rbac_test_role E @ '' was allowed to perform '' @ rule p"

definition truthy :: "string option \<Rightarrow> bool" where
  "truthy m = (case m of None \<Rightarrow> False | Some s \<Rightarrow> s \<noteq> [])"

definition reconcile ::
  "env \<Rightarrow> action_params \<Rightarrow> bool \<Rightarrow> exc_class \<Rightarrow> string option \<Rightarrow> outcome
     \<Rightarrow> outcome \<times> event list"
where
  "reconcile E p allowed expected_exception irregular_msg r =
     (case r of
        Raises e \<Rightarrow>
          if class_of e = RbacInvalidService then
            (Raises (Exc NotFound
                       (invalid_service_msg p @ '' RbacInvalidService was: '' @ str_of e)),
             [LogError (invalid_service_msg p)])
          else if class_of e = expected_exception \<or> class_of e = RbacActionFailed then
            (let warned =
                   (if truthy irregular_msg
                    then [LogWarning (str_format (the irregular_msg) (rule p) (service p))]
                    else [])
             in if allowed then
                  (Raises (Exc Forbidden
                             (not_allowed_msg E p @ '' exception was: '' @ str_of e)),
                   warned @ [LogError (not_allowed_msg E p)])
                else (Returns, warned))
          else if is_Exception (class_of e) then
            (case constructor_error E (class_of e) of
               None \<Rightarrow>
                 (Raises (Exc (class_of e) (unexpected_msg e expected_exception)),
                  [LogError (unexpected_msg e expected_exception)])
             | Some err \<Rightarrow>
                 (Raises err, [LogError (unexpected_msg e expected_exception)]))
          else (Raises e, [])
      | Returns \<Rightarrow>
          if \<not> allowed then
            (Raises (Exc RbacOverPermission (''OverPermission: '' @ was_allowed_msg E p)),
             [LogError (was_allowed_msg E p)])
          else (Returns, []))"

text \<open>
  Lines 126 to 128, the \<open>finally\<close> clause: \<^verbatim>\<open>caller_ref.rbac_utils.switch_role\<close> is read
  and the value found is called. The first component is the exception of a failed read or
  of the call, if any; the event records that the call was made.
\<close>

definition restore_role :: "env \<Rightarrow> pyval \<Rightarrow> exc option \<times> event list" where
  "restore_role E caller_ref =
     (case getattr_chain caller_ref [''rbac_utils'', ''switch_role''] of
        Inl e \<Rightarrow> (Some e, [])
      | Inr m \<Rightarrow>
          (case switch_role E m caller_ref False of
             Returns \<Rightarrow> (None, [SwitchRole caller_ref False])
           | Raises e \<Rightarrow> (Some e, [SwitchRole caller_ref False])))"

text \<open>
  The whole wrapper. \<open>func\<close> is called with the positional arguments only. The \<open>finally\<close>
  clause belongs to the \<open>try\<close> around that call: it runs after the handlers, and an
  exception it raises replaces the outcome of the handlers.
\<close>

definition wrapper ::
  "env \<Rightarrow> action_params \<Rightarrow> guarded \<Rightarrow> pyval list \<Rightarrow> (string \<times> pyval) list
     \<Rightarrow> outcome \<times> event list"
where
  "wrapper E p func args kwargs =
     (case resolve_credentials args of
        Inl e \<Rightarrow> (Raises e, [LogError (str_of e)])
      | Inr (caller_ref, project_id, user_id) \<Rightarrow>
          (case permission_verdict E p caller_ref project_id user_id of
             (Inl e, evs) \<Rightarrow> (Raises e, evs)
           | (Inr allowed, evs) \<Rightarrow>
               (case get_exception_type (expected_error_code p) of
                  Inl e \<Rightarrow> (Raises e, evs @ [LogError unsupported_code_msg])
                | Inr (expected_exception, irregular_msg) \<Rightarrow>
                    (case reconcile E p allowed expected_exception irregular_msg
                            (func args [])
                     of (r, evs') \<Rightarrow>
                       (case restore_role E caller_ref of
                          (None, evs'') \<Rightarrow>
                            (r, evs @ [FuncCall args []] @ evs' @ evs'')
                        | (Some e, evs'') \<Rightarrow>
                            (Raises e, evs @ [FuncCall args []] @ evs' @ evs''))))))"

text \<open>
  An invocation reaches the call \<^verbatim>\<open>func(*args)\<close> when the credentials are found, the
  verdict is computed and the expected error code is one of the supported ones.
\<close>

definition reaches_func :: "env \<Rightarrow> action_params \<Rightarrow> pyval list \<Rightarrow> bool" where
  "reaches_func E p args =
     (case resolve_credentials args of
        Inl e \<Rightarrow> False
      | Inr (caller_ref, project_id, user_id) \<Rightarrow>
          (case fst (permission_verdict E p caller_ref project_id user_id) of
             Inl e \<Rightarrow> False
           | Inr allowed \<Rightarrow>
               (case get_exception_type (expected_error_code p) of
                  Inl e \<Rightarrow> False
                | Inr x \<Rightarrow> True)))"

section \<open>Concrete test data\<close>

definition credentials_obj :: pyval where
  "credentials_obj =
     PyObj ''Credentials'' False
       [(''project_id'', PyStr ''p-1''), (''user_id'', PyStr ''u-1'')]"

definition auth_provider_obj :: pyval where
  "auth_provider_obj = PyObj ''AuthProvider'' False [(''credentials'', credentials_obj)]"

definition test_case_obj :: pyval where
  "test_case_obj =
     PyObj ''RbacTest'' True
       [(''auth_provider'', auth_provider_obj),
        (''os'', PyObj ''Manager'' False [(''auth_provider'', auth_provider_obj)]),
        (''rbac_utils'', PyObj ''RbacUtils'' False [(''switch_role'', PyCallable)])]"

definition bare_test_case_obj :: pyval where
  "bare_test_case_obj =
     PyObj ''BaseTest'' True [(''auth_provider'', auth_provider_obj)]"

definition broken_test_case_obj :: pyval where
  "broken_test_case_obj =
     PyObj ''RbacTest'' True
       [(''auth_provider'', PyObj ''AuthProvider'' False [(''credentials'', PyNone)])]"

definition params_of :: "bool \<Rightarrow> int \<Rightarrow> (string \<times> string) list \<Rightarrow> action_params" where
  "params_of adm code etd =
     \<lparr>service = ''nova'', rule = ''servers:create'', admin_only = adm,
      expected_error_code = code, extra_target_data = etd\<rparr>"

definition env_of :: "string \<Rightarrow> bool \<Rightarrow> env" where
  "env_of role answer =
     \<lparr>rbac_test_role = role, get_permission = (\<lambda>pid uid svc extra r ro. answer),
      switch_role = (\<lambda>m r t. Returns), constructor_error = (\<lambda>c. None)\<rparr>"

definition five_arguments :: exc where
  "five_arguments =
     Exc (OtherException ''TypeError'') ''function takes exactly 5 arguments (1 given)''"

definition strict_env :: "string \<Rightarrow> bool \<Rightarrow> env" where
  "strict_env role answer =
     (env_of role answer)
       \<lparr>constructor_error :=
          (\<lambda>c. if c = OtherException ''UnicodeDecodeError'' then Some five_arguments
                else None)\<rparr>"

definition offline_env :: "string \<Rightarrow> bool \<Rightarrow> env" where
  "offline_env role answer =
     (env_of role answer)
       \<lparr>switch_role :=
          (\<lambda>m r t.
             Raises (Exc (OtherException ''ConnectionError'') ''identity service down''))\<rparr>"

definition trust_paths :: "(string \<times> string) list" where
  "trust_paths =
     [(''trust.trustor_user_id'', ''os.auth_provider.credentials.user_id''),
      (''trust.project_id'', ''os.auth_provider.credentials.project_id'')]"

section \<open>Helper lemmas\<close>

lemma sample_credentials:
  "resolve_credentials [test_case_obj] = Inr (test_case_obj, PyStr ''p-1'', PyStr ''u-1'')"
  by (simp add: resolve_credentials_def caller_reference_def test_case_obj_def
        auth_provider_obj_def credentials_obj_def)

lemma sample_verdict:
  "permission_verdict (env_of role b) (params_of False code []) test_case_obj
      (PyStr ''p-1'') (PyStr ''u-1'')
     = (Inr b, [AuthorityInit (PyStr ''p-1'') (PyStr ''u-1'') ''nova'' [],
                GetPermission ''servers:create'' role])"
  by (simp add: permission_verdict_def params_of_def env_of_def
        format_extra_target_data_def)

lemma sample_code [simp]: "expected_error_code (params_of adm code etd) = code"
  by (simp add: params_of_def)

lemma classify_403: "get_exception_type 403 = Inr (Forbidden, None)"
  by (simp add: get_exception_type_def)

lemma classify_404: "get_exception_type 404 = Inr (NotFound, Some irregular_template)"
  by (simp add: get_exception_type_def)

lemma verdict_no_switch_role:
  "filter is_switch_role (snd (permission_verdict E p c pid uid)) = []"
  by (simp add: permission_verdict_def split: sum.splits)

lemma verdict_no_func_call:
  "filter is_func_call (snd (permission_verdict E p c pid uid)) = []"
  by (simp add: permission_verdict_def split: sum.splits)

lemma reconcile_no_switch_role:
  "filter is_switch_role (snd (reconcile E p allowed ex irr r)) = []"
  by (simp add: reconcile_def Let_def split: outcome.splits option.splits)

lemma reconcile_no_func_call:
  "filter is_func_call (snd (reconcile E p allowed ex irr r)) = []"
  by (simp add: reconcile_def Let_def split: outcome.splits option.splits)

lemma reconcile_no_authority:
  "filter is_authority_event (snd (reconcile E p allowed ex irr r)) = []"
  by (simp add: reconcile_def Let_def split: outcome.splits option.splits)

lemma restore_role_events:
  "snd (restore_role E c) =
     (if isl (getattr_chain c [''rbac_utils'', ''switch_role''])
      then [] else [SwitchRole c False])"
  by (simp add: restore_role_def split: sum.splits outcome.splits
        del: getattr_chain.simps)

lemma restore_role_no_func_call:
  "filter is_func_call (snd (restore_role E c)) = []"
  by (simp add: restore_role_events)

lemma restore_role_no_authority:
  "filter is_authority_event (snd (restore_role E c)) = []"
  by (simp add: restore_role_events)

lemma env_fields:
  "rbac_test_role (env_of role b) = role"
  "get_permission (env_of role b) pid uid svc extra r ro = b"
  "switch_role (env_of role b) m c t = Returns"
  "constructor_error (env_of role b) cls = None"
  "rbac_test_role (strict_env role b) = role"
  "get_permission (strict_env role b) pid uid svc extra r ro = b"
  "switch_role (strict_env role b) m c t = Returns"
  "constructor_error (strict_env role b) (OtherException ''UnicodeDecodeError'')
     = Some five_arguments"
  "rbac_test_role (offline_env role b) = role"
  "get_permission (offline_env role b) pid uid svc extra r ro = b"
  "switch_role (offline_env role b) m c t
     = Raises (Exc (OtherException ''ConnectionError'') ''identity service down'')"
  by (simp_all add: env_of_def strict_env_def offline_env_def)

lemma sample_restore:
  "restore_role (env_of role b) test_case_obj = (None, [SwitchRole test_case_obj False])"
  by (simp add: restore_role_def test_case_obj_def env_fields)


lemma offline_restore:
  "restore_role (offline_env role b) test_case_obj
     = (Some (Exc (OtherException ''ConnectionError'') ''identity service down''),
        [SwitchRole test_case_obj False])"
  by (simp add: restore_role_def test_case_obj_def env_fields)

lemma bare_credentials:
  "resolve_credentials [bare_test_case_obj]
     = Inr (bare_test_case_obj, PyStr ''p-1'', PyStr ''u-1'')"
  by (simp add: resolve_credentials_def caller_reference_def bare_test_case_obj_def
        auth_provider_obj_def credentials_obj_def)

lemma bare_restore:
  "restore_role E bare_test_case_obj
     = (Some (no_attribute bare_test_case_obj ''rbac_utils''), [])"
  by (simp add: restore_role_def bare_test_case_obj_def)

lemma verdict_without_paths:
  "permission_verdict E (params_of False code []) c pid uid
     = (Inr (get_permission E pid uid ''nova'' [] ''servers:create'' (rbac_test_role E)),
        [AuthorityInit pid uid ''nova'' [],
         GetPermission ''servers:create'' (rbac_test_role E)])"
  by (simp add: permission_verdict_def params_of_def format_extra_target_data_def)

section \<open>Reconciling the verdict with the outcome of the guarded function\<close>

text \<open>
  Claim C1 as stated fails when the \<open>finally\<close> clause raises: on a test case without
  \<open>rbac_utils\<close> the verdict is allowed and the guarded function returns, yet the wrapper
  raises the \<open>AttributeError\<close> of the read \<^verbatim>\<open>caller_ref.rbac_utils\<close> instead of returning.
\<close>

theorem validate_outcomes_counterexample:
  "fst (permission_verdict (env_of ''member'' True) (params_of False 403 [])
          bare_test_case_obj (PyStr ''p-1'') (PyStr ''u-1'')) = Inr True
 \<and> fst (wrapper (env_of ''member'' True) (params_of False 403 [])
          (\<lambda>a k. Returns) [bare_test_case_obj] [])
     = Raises (no_attribute bare_test_case_obj ''rbac_utils'')
 \<and> fst (wrapper (env_of ''member'' True) (params_of False 403 [])
          (\<lambda>a k. Returns) [bare_test_case_obj] []) \<noteq> Returns"
  by (simp add: wrapper_def bare_credentials verdict_without_paths classify_403
        reconcile_def bare_restore env_fields)

text \<open>
  Claim C1, amended. In an invocation that computes the verdict \<open>allowed\<close> and calls the
  guarded function, and whose \<open>finally\<close> clause completes without raising: when \<open>allowed\<close>
  is true, the wrapper returns normally if the function returns and raises \<open>Forbidden\<close> if
  the function raises the expected exception; when \<open>allowed\<close> is false, the wrapper raises
  \<open>RbacOverPermission\<close> if the function returns and returns normally if the function raises
  the expected exception. When the \<open>finally\<close> clause raises, the wrapper raises that
  exception instead.
\<close>

theorem validate_outcomes:
  assumes "resolve_credentials args = Inr (caller_ref, project_id, user_id)"
    and "permission_verdict E p caller_ref project_id user_id = (Inr allowed, evs)"
    and "get_exception_type (expected_error_code p) = Inr (expected_exception, irregular_msg)"
  shows "(fst (restore_role E caller_ref) = None \<longrightarrow>
            (allowed \<and> func args [] = Returns
               \<longrightarrow> fst (wrapper E p func args kwargs) = Returns)
          \<and> (allowed \<and> func args [] = Raises (Exc expected_exception detail)
               \<longrightarrow> fst (wrapper E p func args kwargs)
                     = Raises (Exc Forbidden
                         (not_allowed_msg E p @ '' exception was: '' @ detail)))
          \<and> (\<not> allowed \<and> func args [] = Returns
               \<longrightarrow> fst (wrapper E p func args kwargs)
                     = Raises (Exc RbacOverPermission
                         (''OverPermission: '' @ was_allowed_msg E p)))
          \<and> (\<not> allowed \<and> func args [] = Raises (Exc expected_exception detail)
               \<longrightarrow> fst (wrapper E p func args kwargs) = Returns))
       \<and> (fst (restore_role E caller_ref) = Some e
            \<longrightarrow> fst (wrapper E p func args kwargs) = Raises e)"
proof (cases "restore_role E caller_ref")
  case (Pair ro revs)
  then show ?thesis
    using assms
    by (auto simp: wrapper_def reconcile_def get_exception_type_def
          split: if_splits prod.splits option.splits)
qed

text \<open>
  The four cases of the amended C1 on the sample test case, with codes 403 and 404, and the
  test case without \<open>rbac_utils\<close>.
\<close>

theorem validate_outcomes_witness:
  "fst (restore_role (env_of ''member'' True) test_case_obj) = None
 \<and> fst (wrapper (env_of ''member'' True) (params_of False 403 [])
          (\<lambda>a k. Returns) [test_case_obj] []) = Returns
 \<and> fst (wrapper (env_of ''member'' True) (params_of False 403 [])
          (\<lambda>a k. Raises (Exc Forbidden ''denied'')) [test_case_obj] [])
     = Raises (Exc Forbidden
         ''Role member was not allowed to perform servers:create. exception was: denied'')
 \<and> fst (wrapper (env_of ''member'' False) (params_of False 404 [])
          (\<lambda>a k. Returns) [test_case_obj] [])
     = Raises (Exc RbacOverPermission
         ''OverPermission: Role member was allowed to perform servers:create'')
 \<and> fst (wrapper (env_of ''member'' False) (params_of False 404 [])
          (\<lambda>a k. Raises (Exc NotFound ''gone'')) [test_case_obj] []) = Returns
 \<and> fst (wrapper (env_of ''member'' False) (params_of False 404 [])
          (\<lambda>a k. Raises (Exc NotFound ''gone'')) [bare_test_case_obj] [])
     = Raises (no_attribute bare_test_case_obj ''rbac_utils'')"
proof -
  note allow = sample_verdict [of "''member''" True 403]
  note deny = sample_verdict [of "''member''" False 404]
  have bare: "permission_verdict (env_of ''member'' False) (params_of False 404 [])
                bare_test_case_obj (PyStr ''p-1'') (PyStr ''u-1'')
              = (Inr False, [AuthorityInit (PyStr ''p-1'') (PyStr ''u-1'') ''nova'' [],
                             GetPermission ''servers:create'' ''member''])"
    by (simp add: verdict_without_paths env_fields)
  show ?thesis
    using
      validate_outcomes [where func = "\<lambda>a k. Returns" and kwargs = "[]"
        and expected_exception = Forbidden and irregular_msg = None,
        OF sample_credentials allow]
      validate_outcomes [where func = "\<lambda>a k. Raises (Exc Forbidden ''denied'')"
        and kwargs = "[]" and detail = "''denied''"
        and expected_exception = Forbidden and irregular_msg = None,
        OF sample_credentials allow]
      validate_outcomes [where func = "\<lambda>a k. Returns" and kwargs = "[]"
        and expected_exception = NotFound and irregular_msg = "Some irregular_template",
        OF sample_credentials deny]
      validate_outcomes [where func = "\<lambda>a k. Raises (Exc NotFound ''gone'')"
        and kwargs = "[]" and detail = "''gone''"
        and expected_exception = NotFound and irregular_msg = "Some irregular_template",
        OF sample_credentials deny]
      validate_outcomes [where func = "\<lambda>a k. Raises (Exc NotFound ''gone'')"
        and kwargs = "[]" and e = "no_attribute bare_test_case_obj ''rbac_utils''"
        and expected_exception = NotFound and irregular_msg = "Some irregular_template",
        OF bare_credentials bare]
    by (simp add: classify_403 classify_404 not_allowed_msg_def was_allowed_msg_def
          env_fields params_of_def sample_restore bare_restore)
qed

section \<open>Role restoration\<close>

text \<open>
  Claim C2 as stated fails: with the unsupported code 500 the verdict is computed (the
  authority is queried), \<open>RbacInvalidErrorCode\<close> is raised, and \<open>switch_role\<close> is not called.
  Nor is it called on a test case without \<open>rbac_utils\<close>, although the guarded function is.
\<close>

theorem role_restoration_counterexample:
  "fst (wrapper (env_of ''member'' True) (params_of False 500 [])
          (\<lambda>a k. Returns) [test_case_obj] [])
     = Raises (Exc RbacInvalidErrorCode [])
 \<and> snd (wrapper (env_of ''member'' True) (params_of False 500 [])
          (\<lambda>a k. Returns) [test_case_obj] [])
     = [AuthorityInit (PyStr ''p-1'') (PyStr ''u-1'') ''nova'' [],
        GetPermission ''servers:create'' ''member'',
        LogError unsupported_code_msg]
 \<and> length (filter is_switch_role
      (snd (wrapper (env_of ''member'' True) (params_of False 500 [])
              (\<lambda>a k. Returns) [test_case_obj] []))) = 0
 \<and> snd (wrapper (env_of ''member'' True) (params_of False 403 [])
          (\<lambda>a k. Returns) [bare_test_case_obj] [])
     = [AuthorityInit (PyStr ''p-1'') (PyStr ''u-1'') ''nova'' [],
        GetPermission ''servers:create'' ''member'',
        FuncCall [bare_test_case_obj] []]"
  by (simp add: wrapper_def sample_credentials sample_verdict get_exception_type_def
        bare_credentials verdict_without_paths reconcile_def bare_restore env_fields)

text \<open>
  Claim C2, amended. The \<open>finally\<close> clause runs in every invocation that reaches the call
  of the guarded function and in no other. It calls \<open>switch_role\<close> exactly once, as the
  last call of the invocation, when \<^verbatim>\<open>caller_ref.rbac_utils.switch_role\<close> can be read, and
  not at all otherwise. An invocation that stops earlier (credentials not found, attribute
  resolution failed, unsupported expected error code) never calls it.
\<close>

theorem role_restored_once_after_func:
  "length (filter is_switch_role (snd (wrapper E p func args kwargs)))
     = (if reaches_func E p args
           \<and> \<not> isl (getattr_chain (caller_reference args)
                      [''rbac_utils'', ''switch_role''])
        then 1 else 0)
 \<and> length (filter is_func_call (snd (wrapper E p func args kwargs)))
     = (if reaches_func E p args then 1 else 0)
 \<and> (reaches_func E p args
      \<and> \<not> isl (getattr_chain (caller_reference args) [''rbac_utils'', ''switch_role''])
      \<longrightarrow> last (snd (wrapper E p func args kwargs))
            = SwitchRole (caller_reference args) False)"
proof (cases "resolve_credentials args")
  case (Inl e)
  then show ?thesis by (simp add: wrapper_def reaches_func_def del: getattr_chain.simps)
next
  case (Inr t)
  then obtain c pid uid where t: "t = (c, pid, uid)" by (cases t) auto
  have c: "c = caller_reference args"
    using Inr t by (auto simp: resolve_credentials_def Let_def split: sum.splits)
  obtain v evs where pv: "permission_verdict E p c pid uid = (v, evs)"
    by (cases "permission_verdict E p c pid uid") auto
  have s: "filter is_switch_role evs = []"
    using verdict_no_switch_role [of E p c pid uid] pv by simp
  have f: "filter is_func_call evs = []"
    using verdict_no_func_call [of E p c pid uid] pv by simp
  show ?thesis
  proof (cases v)
    case (Inl e)
    then show ?thesis
      using Inr t pv s f by (simp add: wrapper_def reaches_func_def del: getattr_chain.simps)
  next
    case allowed: (Inr allowed)
    show ?thesis
    proof (cases "get_exception_type (expected_error_code p)")
      case (Inl e)
      then show ?thesis
        using Inr t pv s f allowed
        by (simp add: wrapper_def reaches_func_def del: getattr_chain.simps)
    next
      case cls: (Inr x)
      obtain ex irr where x: "x = (ex, irr)" by (cases x) auto
      obtain r evs' where rc: "reconcile E p allowed ex irr (func args []) = (r, evs')"
        by (cases "reconcile E p allowed ex irr (func args [])") auto
      have s': "filter is_switch_role evs' = []"
        using reconcile_no_switch_role [of E p allowed ex irr "func args []"] rc by simp
      have f': "filter is_func_call evs' = []"
        using reconcile_no_func_call [of E p allowed ex irr "func args []"] rc by simp
      obtain ro revs where rr: "restore_role E c = (ro, revs)"
        by (cases "restore_role E c") auto
      have revs: "revs = (if isl (getattr_chain c [''rbac_utils'', ''switch_role''])
                          then [] else [SwitchRole c False])"
        using restore_role_events [of E c] rr by simp
      have reach: "reaches_func E p args"
        using Inr t pv allowed cls by (simp add: reaches_func_def)
      have tr: "snd (wrapper E p func args kwargs) = evs @ [FuncCall args []] @ evs' @ revs"
        using Inr t pv allowed cls x rc rr
        by (cases ro) (simp_all add: wrapper_def)
      show ?thesis
        unfolding tr using reach s f s' f' revs c
        by (simp del: getattr_chain.simps)
    qed
  qed
qed

text \<open>
  The amended C2 on an invocation that restores the role, on one that stops at the
  unsupported code 500, and on one whose test case has no \<open>rbac_utils\<close>.
\<close>

theorem role_restored_once_after_func_witness:
  "reaches_func (env_of ''member'' True) (params_of False 403 []) [test_case_obj]
 \<and> length (filter is_switch_role
      (snd (wrapper (env_of ''member'' True) (params_of False 403 [])
              (\<lambda>a k. Raises (Exc (OtherException ''ValueError'') ''bad'')) [test_case_obj] [])))
     = 1
 \<and> \<not> reaches_func (env_of ''member'' True) (params_of False 500 []) [test_case_obj]
 \<and> length (filter is_switch_role
      (snd (wrapper (env_of ''member'' True) (params_of False 500 [])
              (\<lambda>a k. Returns) [test_case_obj] []))) = 0
 \<and> reaches_func (env_of ''member'' True) (params_of False 403 []) [bare_test_case_obj]
 \<and> length (filter is_switch_role
      (snd (wrapper (env_of ''member'' True) (params_of False 403 [])
              (\<lambda>a k. Returns) [bare_test_case_obj] []))) = 0"
proof -
  have a: "reaches_func (env_of ''member'' True) (params_of False 403 []) [test_case_obj]"
    by (simp add: reaches_func_def sample_credentials sample_verdict classify_403)
  have b: "\<not> reaches_func (env_of ''member'' True) (params_of False 500 []) [test_case_obj]"
    by (simp add: reaches_func_def sample_credentials sample_verdict get_exception_type_def)
  have c: "reaches_func (env_of ''member'' True) (params_of False 403 []) [bare_test_case_obj]"
    by (simp add: reaches_func_def bare_credentials verdict_without_paths classify_403)
  have r1: "\<not> isl (getattr_chain (caller_reference [test_case_obj])
                       [''rbac_utils'', ''switch_role''])"
    by (simp add: caller_reference_def test_case_obj_def)
  have r2: "isl (getattr_chain (caller_reference [bare_test_case_obj])
                   [''rbac_utils'', ''switch_role''])"
    by (simp add: caller_reference_def bare_test_case_obj_def)
  show ?thesis
    using a b c r1 r2
      role_restored_once_after_func [of "env_of ''member'' True" "params_of False 403 []"
        "\<lambda>a k. Raises (Exc (OtherException ''ValueError'') ''bad'')" "[test_case_obj]" "[]"]
      role_restored_once_after_func [of "env_of ''member'' True" "params_of False 500 []"
        "\<lambda>a k. Returns" "[test_case_obj]" "[]"]
      role_restored_once_after_func [of "env_of ''member'' True" "params_of False 403 []"
        "\<lambda>a k. Returns" "[bare_test_case_obj]" "[]"]
    by (simp del: getattr_chain.simps)
qed

lemma getattr_error_class: "getattr v a = Inl e \<Longrightarrow> class_of e = AttributeError"
  by (cases v) (auto simp: no_attribute_def split: option.splits)

lemma getattr_chain_error_class:
  "getattr_chain v as = Inl e \<Longrightarrow> class_of e = AttributeError"
  by (induction as arbitrary: v) (auto split: sum.splits dest: getattr_error_class)



lemma format_extra_target_data_single:
  "format_extra_target_data test_obj [(k, s)] =
     (case getattr_chain test_obj (split_dot s) of
        Inl e \<Rightarrow> Inl e
      | Inr v \<Rightarrow> Inr [(k, v)])"
  by (simp add: format_extra_target_data_def split: sum.splits)

lemma sample_paths:
  "split_dot ''os.auth_provider.credentials.user_id''
     = [''os'', ''auth_provider'', ''credentials'', ''user_id'']"
  "split_dot ''os.auth_provider.credentials.project_id''
     = [''os'', ''auth_provider'', ''credentials'', ''project_id'']"
  by simp_all

section \<open>Resolving the extra target data\<close>

text \<open>
  Claim C3 asks that every entry of the mapping is traversed from the root object. The code
  does so for the first entry only. On the two trust paths, each of which resolves from the
  test case, the second traversal starts from the user id the first one reached and raises
  \<open>AttributeError\<close>, in either order of the two items; the mapping of both attributes is not
  returned.
\<close>

theorem format_extra_target_data_second_entry:
  "getattr_chain test_case_obj (split_dot ''os.auth_provider.credentials.user_id'')
     = Inr (PyStr ''u-1'')
 \<and> getattr_chain test_case_obj (split_dot ''os.auth_provider.credentials.project_id'')
     = Inr (PyStr ''p-1'')
 \<and> format_extra_target_data test_case_obj trust_paths
     = Inl (no_attribute (PyStr ''u-1'') ''os'')
 \<and> format_extra_target_data test_case_obj (rev trust_paths)
     = Inl (no_attribute (PyStr ''p-1'') ''os'')
 \<and> format_extra_target_data test_case_obj trust_paths
     \<noteq> Inr [(''trust.trustor_user_id'', PyStr ''u-1''), (''trust.project_id'', PyStr ''p-1'')]"
  by (simp add: format_extra_target_data_def trust_paths_def sample_paths test_case_obj_def
        auth_provider_obj_def credentials_obj_def)




section \<open>Classifying the expected error code\<close>

lemma verdict_events_no_func_call:
  "permission_verdict E p c pid uid = (v, evs) \<Longrightarrow> filter is_func_call evs = []"
  using verdict_no_func_call [of E p c pid uid] by simp

text \<open>
  Claim C5. Code 403 gives \<open>Forbidden\<close> and no notice, 404 gives \<open>NotFound\<close> and the
  (non-empty) notice template, any other code raises \<open>RbacInvalidErrorCode\<close>; with such a
  code the guarded function is never called, and an invocation that has computed its
  verdict raises \<open>RbacInvalidErrorCode\<close>.
\<close>

theorem get_exception_type_codes:
  "get_exception_type 403 = Inr (Forbidden, None)
 \<and> get_exception_type 404 = Inr (NotFound, Some irregular_template)
 \<and> truthy (Some irregular_template)
 \<and> (code \<noteq> 403 \<and> code \<noteq> 404
      \<longrightarrow> get_exception_type code = Inl (Exc RbacInvalidErrorCode []))
 \<and> (expected_error_code p \<noteq> 403 \<and> expected_error_code p \<noteq> 404
      \<longrightarrow> filter is_func_call (snd (wrapper E p func args kwargs)) = []
        \<and> (\<forall>c pid uid allowed evs.
              resolve_credentials args = Inr (c, pid, uid)
              \<and> permission_verdict E p c pid uid = (Inr allowed, evs)
              \<longrightarrow> wrapper E p func args kwargs
                    = (Raises (Exc RbacInvalidErrorCode []),
                       evs @ [LogError unsupported_code_msg])))"
  by (auto simp: get_exception_type_def truthy_def irregular_template_def wrapper_def
        split: sum.splits prod.splits dest: verdict_events_no_func_call)

text \<open>Code 500 on the sample test case.\<close>

theorem get_exception_type_codes_witness:
  "get_exception_type 500 = Inl (Exc RbacInvalidErrorCode [])
 \<and> filter is_func_call
      (snd (wrapper (env_of ''member'' True) (params_of False 500 [])
              (\<lambda>a k. Returns) [test_case_obj] [])) = []
 \<and> wrapper (env_of ''member'' True) (params_of False 500 [])
      (\<lambda>a k. Returns) [test_case_obj] []
     = (Raises (Exc RbacInvalidErrorCode []),
        [AuthorityInit (PyStr ''p-1'') (PyStr ''u-1'') ''nova'' [],
         GetPermission ''servers:create'' ''member'',
         LogError unsupported_code_msg])"
  using get_exception_type_codes [of 500 "params_of False 500 []" "env_of ''member'' True"
          "\<lambda>a k. Returns" "[test_case_obj]" "[]"]
        sample_credentials sample_verdict [of "''member''" True 500]
  by auto

section \<open>The admin-only shortcut\<close>

lemma restore_events_no_authority:
  "restore_role E c = (ro, evs) \<Longrightarrow> filter is_authority_event evs = []"
  using restore_role_no_authority [of E c] by simp

lemma reconcile_events_no_authority:
  "reconcile E p allowed ex irr r = (r', evs) \<Longrightarrow> filter is_authority_event evs = []"
  using reconcile_no_authority [of E p allowed ex irr r] by simp

text \<open>
  Claim C6. With \<open>admin_only\<close> the verdict is the comparison of the configured role with
  \<open>admin\<close>, no \<open>RbacAuthority\<close> is built and \<open>get_permission\<close> is not called: the
  invocation is the same whatever the authority would answer.
\<close>

theorem admin_only_skips_authority:
  assumes "admin_only p"
  shows "permission_verdict E p caller_ref project_id user_id
           = (Inr (rbac_test_role E = ''admin''), [LogInfo (admin_only_msg (rule p))])
       \<and> filter is_authority_event (snd (wrapper E p func args kwargs)) = []
       \<and> wrapper (E\<lparr>get_permission := g\<rparr>) p func args kwargs
           = wrapper E p func args kwargs"
proof -
  have v: "\<And>E c pid uid. permission_verdict E p c pid uid
             = (Inr (rbac_test_role E = ''admin''), [LogInfo (admin_only_msg (rule p))])"
    using assms by (simp add: permission_verdict_def)
  have r: "\<And>allowed ex irr r. reconcile (E\<lparr>get_permission := g\<rparr>) p allowed ex irr r
             = reconcile E p allowed ex irr r"
    by (simp add: reconcile_def not_allowed_msg_def was_allowed_msg_def Let_def
          split: outcome.splits option.splits)
  have f: "\<And>c. restore_role (E\<lparr>get_permission := g\<rparr>) c = restore_role E c"
    by (simp add: restore_role_def split: sum.splits del: getattr_chain.simps)
  have a: "filter is_authority_event (snd (wrapper E p func args kwargs)) = []"
    by (auto simp: wrapper_def v split: sum.splits prod.splits option.splits
          dest: reconcile_events_no_authority restore_events_no_authority)
  have w: "wrapper (E\<lparr>get_permission := g\<rparr>) p func args kwargs
             = wrapper E p func args kwargs"
    by (simp add: wrapper_def v r f split: sum.splits prod.splits)
  show ?thesis using v a w by simp
qed

text \<open>The roles \<open>admin\<close> and \<open>Admin\<close> under \<open>admin_only\<close>.\<close>

theorem admin_only_skips_authority_witness:
  "admin_only (params_of True 403 trust_paths)
 \<and> permission_verdict (env_of ''admin'' False) (params_of True 403 trust_paths)
       test_case_obj (PyStr ''p-1'') (PyStr ''u-1'')
     = (Inr True, [LogInfo (admin_only_msg ''servers:create'')])
 \<and> permission_verdict (env_of ''Admin'' True) (params_of True 403 trust_paths)
       test_case_obj (PyStr ''p-1'') (PyStr ''u-1'')
     = (Inr False, [LogInfo (admin_only_msg ''servers:create'')])
 \<and> filter is_authority_event
      (snd (wrapper (env_of ''admin'' False) (params_of True 403 trust_paths)
              (\<lambda>a k. Returns) [test_case_obj] [])) = []"
proof -
  have h: "admin_only (params_of True 403 trust_paths)"
    by (simp add: params_of_def)
  show ?thesis
    using h
      admin_only_skips_authority [OF h, where E = "env_of ''admin'' False"
        and caller_ref = test_case_obj and project_id = "PyStr ''p-1''"
        and user_id = "PyStr ''u-1''" and func = "\<lambda>a k. Returns"
        and args = "[test_case_obj]" and kwargs = "[]"]
      admin_only_skips_authority [OF h, where E = "env_of ''Admin'' True"
        and caller_ref = test_case_obj and project_id = "PyStr ''p-1''"
        and user_id = "PyStr ''u-1''"]
    by (simp add: env_of_def params_of_def)
qed

section \<open>Exceptions of the guarded function outside the expected ones\<close>




section \<open>The generic action-failed exception\<close>

text \<open>
  Claim C8 as stated fails when the \<open>finally\<close> clause raises: the verdict is not allowed
  and the guarded function raises \<open>RbacActionFailed\<close>, yet the wrapper raises the exception
  of \<open>switch_role\<close> instead of returning.
\<close>

theorem action_failed_counterexample:
  "fst (permission_verdict (offline_env ''member'' False) (params_of False 403 [])
          test_case_obj (PyStr ''p-1'') (PyStr ''u-1'')) = Inr False
 \<and> fst (wrapper (offline_env ''member'' False) (params_of False 403 [])
          (\<lambda>a k. Raises (Exc RbacActionFailed ''failed'')) [test_case_obj] [])
     = Raises (Exc (OtherException ''ConnectionError'') ''identity service down'')
 \<and> fst (wrapper (offline_env ''member'' False) (params_of False 403 [])
          (\<lambda>a k. Raises (Exc RbacActionFailed ''failed'')) [test_case_obj] [])
     \<noteq> Returns"
  by (simp add: wrapper_def sample_credentials verdict_without_paths classify_403
        reconcile_def offline_restore env_fields truthy_def)

text \<open>
  Claim C8, amended. When the guarded function raises \<open>RbacActionFailed\<close> and the \<open>finally\<close>
  clause completes without raising, the wrapper raises \<open>Forbidden\<close> if the verdict is
  allowed and returns normally if it is not, whatever the expected error code. When the
  \<open>finally\<close> clause raises, the wrapper raises that exception. In every case the whole
  invocation is the one of a function raising the expected exception with the same text.
\<close>

theorem action_failed_treated_as_expected:
  assumes "resolve_credentials args = Inr (caller_ref, project_id, user_id)"
    and "permission_verdict E p caller_ref project_id user_id = (Inr allowed, evs)"
    and "get_exception_type (expected_error_code p) = Inr (expected_exception, irregular_msg)"
    and "func args [] = Raises (Exc RbacActionFailed detail)"
  shows "(fst (restore_role E caller_ref) = None \<and> allowed
            \<longrightarrow> fst (wrapper E p func args kwargs)
                  = Raises (Exc Forbidden
                      (not_allowed_msg E p @ '' exception was: '' @ detail)))
       \<and> (fst (restore_role E caller_ref) = None \<and> \<not> allowed
            \<longrightarrow> fst (wrapper E p func args kwargs) = Returns)
       \<and> (fst (restore_role E caller_ref) = Some e
            \<longrightarrow> fst (wrapper E p func args kwargs) = Raises e)
       \<and> wrapper E p func args kwargs
           = wrapper E p (\<lambda>a k. Raises (Exc expected_exception detail)) args kwargs"
proof (cases "restore_role E caller_ref")
  case (Pair ro revs)
  have ne: "expected_exception \<noteq> RbacInvalidService"
    using assms(3) by (auto simp: get_exception_type_def split: if_splits)
  show ?thesis
    using assms ne Pair
    by (auto simp: wrapper_def reconcile_def split: option.splits)
qed

text \<open>
  \<open>RbacActionFailed\<close> while \<open>NotFound\<close> (code 404) is expected, under both verdicts, and
  with a \<open>switch_role\<close> that raises.
\<close>

theorem action_failed_treated_as_expected_witness:
  "fst (wrapper (env_of ''member'' True) (params_of False 404 [])
          (\<lambda>a k. Raises (Exc RbacActionFailed ''failed'')) [test_case_obj] [])
     = Raises (Exc Forbidden
         ''Role member was not allowed to perform servers:create. exception was: failed'')
 \<and> fst (wrapper (env_of ''member'' False) (params_of False 404 [])
          (\<lambda>a k. Raises (Exc RbacActionFailed ''failed'')) [test_case_obj] [])
     = Returns
 \<and> fst (wrapper (offline_env ''member'' False) (params_of False 404 [])
          (\<lambda>a k. Raises (Exc RbacActionFailed ''failed'')) [test_case_obj] [])
     = Raises (Exc (OtherException ''ConnectionError'') ''identity service down'')"
proof -
  note allow = sample_verdict [of "''member''" True 404]
  note deny = sample_verdict [of "''member''" False 404]
  have off: "permission_verdict (offline_env ''member'' False) (params_of False 404 [])
               test_case_obj (PyStr ''p-1'') (PyStr ''u-1'')
             = (Inr False, [AuthorityInit (PyStr ''p-1'') (PyStr ''u-1'') ''nova'' [],
                            GetPermission ''servers:create'' ''member''])"
    by (simp add: verdict_without_paths env_fields)
  have c4: "get_exception_type (expected_error_code (params_of False 404 []))
              = Inr (NotFound, Some irregular_template)"
    by (simp add: classify_404)
  show ?thesis
    using
      action_failed_treated_as_expected [OF sample_credentials allow c4,
        where func = "\<lambda>a k. Raises (Exc RbacActionFailed ''failed'')"
          and detail = "''failed''" and kwargs = "[]", THEN conjunct1]
      action_failed_treated_as_expected [OF sample_credentials deny c4,
        where func = "\<lambda>a k. Raises (Exc RbacActionFailed ''failed'')"
          and detail = "''failed''" and kwargs = "[]", THEN conjunct2, THEN conjunct1]
      action_failed_treated_as_expected [OF sample_credentials off c4,
        where func = "\<lambda>a k. Raises (Exc RbacActionFailed ''failed'')"
          and detail = "''failed''" and kwargs = "[]"
          and e = "Exc (OtherException ''ConnectionError'') ''identity service down''",
        THEN conjunct2, THEN conjunct2, THEN conjunct1]
    by (simp add: not_allowed_msg_def env_fields params_of_def
          sample_restore offline_restore)
qed

section \<open>Credentials that cannot be found\<close>

text \<open>
  Claim C9. When \<open>project_id\<close> or \<open>user_id\<close> cannot be read from
  \<open>caller_ref.auth_provider.credentials\<close>, the wrapper raises \<open>RbacResourceSetupFailed\<close>
  carrying the text of the \<open>AttributeError\<close>; its only effect is the error log, so no
  verdict is computed and the guarded function is not called.
\<close>

theorem missing_credentials_fail_fast:
  assumes "getattr_chain (caller_reference args)
             [''auth_provider'', ''credentials'', ''project_id''] = Inl e1
         \<or> getattr_chain (caller_reference args)
             [''auth_provider'', ''credentials'', ''user_id''] = Inl e2"
  shows "\<exists>e. class_of e = AttributeError
           \<and> (getattr_chain (caller_reference args)
                 [''auth_provider'', ''credentials'', ''project_id''] = Inl e
              \<or> getattr_chain (caller_reference args)
                 [''auth_provider'', ''credentials'', ''user_id''] = Inl e)
           \<and> wrapper E p func args kwargs
               = (Raises (Exc RbacResourceSetupFailed
                    (str_of e
                       @ '': project_id/user_id not found in cls.auth_provider.credentials'')),
                  [LogError
                    (str_of e
                       @ '': project_id/user_id not found in cls.auth_provider.credentials'')])"
proof (cases "getattr_chain (caller_reference args)
                [''auth_provider'', ''credentials'', ''project_id'']")
  case (Inl e)
  have cls: "class_of e = AttributeError" using Inl by (rule getattr_chain_error_class)
  have "wrapper E p func args kwargs
          = (Raises (setup_failed e), [LogError (str_of (setup_failed e))])"
    using Inl
    by (simp add: wrapper_def resolve_credentials_def Let_def del: getattr_chain.simps)
  then show ?thesis
    using cls Inl
    by (intro exI [of _ e]) (simp add: setup_failed_def del: getattr_chain.simps)
next
  case (Inr v)
  then have u: "getattr_chain (caller_reference args)
                  [''auth_provider'', ''credentials'', ''user_id''] = Inl e2"
    using assms by auto
  have cls: "class_of e2 = AttributeError" using u by (rule getattr_chain_error_class)
  have "wrapper E p func args kwargs
          = (Raises (setup_failed e2), [LogError (str_of (setup_failed e2))])"
    using Inr u
    by (simp add: wrapper_def resolve_credentials_def Let_def del: getattr_chain.simps)
  then show ?thesis
    using cls u
    by (intro exI [of _ e2]) (simp add: setup_failed_def del: getattr_chain.simps)
qed

text \<open>No positional argument at all, and a test case whose credentials are \<open>None\<close>.\<close>

theorem missing_credentials_fail_fast_witness:
  "getattr_chain (caller_reference [])
     [''auth_provider'', ''credentials'', ''project_id'']
     = Inl (no_attribute PyNone ''auth_provider'')
 \<and> getattr_chain (caller_reference [broken_test_case_obj])
     [''auth_provider'', ''credentials'', ''project_id'']
     = Inl (no_attribute PyNone ''project_id'')
 \<and> wrapper (env_of ''member'' True) (params_of False 403 []) (\<lambda>a k. Returns) [] []
     = (Raises (setup_failed (no_attribute PyNone ''auth_provider'')),
        [LogError (str_of (setup_failed (no_attribute PyNone ''auth_provider'')))])
 \<and> wrapper (env_of ''member'' True) (params_of False 403 []) (\<lambda>a k. Returns)
       [broken_test_case_obj] []
     = (Raises (setup_failed (no_attribute PyNone ''project_id'')),
        [LogError (str_of (setup_failed (no_attribute PyNone ''project_id'')))])
 \<and> class_of (setup_failed (no_attribute PyNone ''project_id'')) = RbacResourceSetupFailed"
proof -
  have h1: "getattr_chain (caller_reference [])
              [''auth_provider'', ''credentials'', ''project_id'']
              = Inl (no_attribute PyNone ''auth_provider'')"
    by (simp add: caller_reference_def)
  have h2: "getattr_chain (caller_reference [broken_test_case_obj])
              [''auth_provider'', ''credentials'', ''project_id'']
              = Inl (no_attribute PyNone ''project_id'')"
    by (simp add: caller_reference_def broken_test_case_obj_def)
  show ?thesis
    using h1 h2
      missing_credentials_fail_fast [OF disjI1 [OF h1],
        where E = "env_of ''member'' True" and p = "params_of False 403 []"
          and func = "\<lambda>a k. Returns" and kwargs = "[]"]
      missing_credentials_fail_fast [OF disjI1 [OF h2],
        where E = "env_of ''member'' True" and p = "params_of False 403 []"
          and func = "\<lambda>a k. Returns" and kwargs = "[]"]
    by (simp add: wrapper_def resolve_credentials_def setup_failed_def Let_def
          del: getattr_chain.simps)
qed

section \<open>Keyword arguments\<close>

lemma verdict_events_not_func_call:
  "permission_verdict E p c pid uid = (v, evs) \<Longrightarrow> ev \<in> set evs \<Longrightarrow> \<not> is_func_call ev"
  using verdict_no_func_call [of E p c pid uid] by (simp add: filter_empty_conv)

lemma restore_events_not_func_call:
  "restore_role E c = (ro, evs) \<Longrightarrow> ev \<in> set evs \<Longrightarrow> \<not> is_func_call ev"
  using restore_role_no_func_call [of E c] by (simp add: filter_empty_conv)

lemma reconcile_events_not_func_call:
  "reconcile E p allowed ex irr r = (r', evs) \<Longrightarrow> ev \<in> set evs \<Longrightarrow> \<not> is_func_call ev"
  using reconcile_no_func_call [of E p allowed ex irr r] by (simp add: filter_empty_conv)

text \<open>
  Claim C10. The keyword arguments given to the wrapper have no effect: the invocation is
  the one without keyword arguments, the guarded function is only ever asked for its
  behaviour on the positional arguments and no keyword argument, and the only call of it
  in the trace is that one.
\<close>

theorem kwargs_discarded:
  "wrapper E p func args kwargs = wrapper E p func args []
 \<and> wrapper E p func args kwargs = wrapper E p (\<lambda>a k. func a []) args kwargs
 \<and> (\<forall>ev \<in> set (snd (wrapper E p func args kwargs)).
       is_func_call ev \<longrightarrow> ev = FuncCall args [])"
proof -
  have a: "wrapper E p func args kwargs = wrapper E p func args []"
    by (simp add: wrapper_def)
  have b: "wrapper E p func args kwargs = wrapper E p (\<lambda>a k. func a []) args kwargs"
    by (simp add: wrapper_def)
  have c: "\<forall>ev \<in> set (snd (wrapper E p func args kwargs)).
             is_func_call ev \<longrightarrow> ev = FuncCall args []"
    by (auto simp: wrapper_def split: sum.splits prod.splits option.splits
          dest: verdict_events_not_func_call reconcile_events_not_func_call
            restore_events_not_func_call)
  show ?thesis using a b c by blast
qed

text \<open>A guarded function that would reject a keyword argument never sees it.\<close>

theorem kwargs_discarded_witness:
  "wrapper (env_of ''member'' True) (params_of False 403 [])
     (\<lambda>a k. if k = [] then Returns
             else Raises (Exc (OtherException ''TypeError'') ''unexpected keyword argument''))
     [test_case_obj] [(''flavor'', PyStr ''m1.small'')]
   = (Returns,
      [AuthorityInit (PyStr ''p-1'') (PyStr ''u-1'') ''nova'' [],
       GetPermission ''servers:create'' ''member'',
       FuncCall [test_case_obj] [],
       SwitchRole test_case_obj False])"
  using kwargs_discarded [of "env_of ''member'' True" "params_of False 403 []"
      "\<lambda>a k. if k = [] then Returns
              else Raises (Exc (OtherException ''TypeError'') ''unexpected keyword argument'')"
      "[test_case_obj]" "[(''flavor'', PyStr ''m1.small'')]"]
  by (simp add: wrapper_def sample_credentials sample_verdict classify_403 reconcile_def
        sample_restore)

end
